theory Spec2Isabelle
  imports Complex_Main
begin

section \<open>Errors raised by the program\<close>

text \<open>
  Every \<^verbatim>\<open>raise\<close> of \<^verbatim>\<open>volatile.py\<close> and every exception of the library calls it makes
  is a value: \<open>ConfigError\<close> is the plain \<^verbatim>\<open>Exception\<close> raised on an unknown level or
  ranking mode, \<open>KeyError\<close> a missing dictionary key, \<open>ValueError\<close> a shape mismatch in an
  array operation, \<open>IndexError\<close> an index out of range, \<open>ZeroDivisionError\<close> a Python
  division by zero.
\<close>

datatype error = ConfigError | KeyError string | ValueError | IndexError | ZeroDivisionError

section \<open>Rating: \<^verbatim>\<open>rate\<close>\<close>

text \<open>
  Scores are real numbers (the finite values of a float array). The thresholds are a
  Python dict from label to number.
\<close>

type_synonym thresholds = "string \<rightharpoonup> real"

definition default_thresholds :: thresholds where
  "default_thresholds =
     [''HIGHLY BELOW TREND'' \<mapsto> 3, ''BELOW TREND'' \<mapsto> 2, ''ALONG TREND'' \<mapsto> 0,
      ''ABOVE TREND'' \<mapsto> - 2, ''HIGHLY ABOVE TREND'' \<mapsto> - 3]"

text \<open>\<^verbatim>\<open>thresholds[k]\<close>: a missing key raises.\<close>

definition lookup :: "thresholds \<Rightarrow> string \<Rightarrow> error + real" where
  "lookup th k = (case th k of None \<Rightarrow> Inl (KeyError k) | Some v \<Rightarrow> Inr v)"

text \<open>
  The body of the loop: the \<^verbatim>\<open>if\<close>/\<^verbatim>\<open>elif\<close> chain, each threshold looked up only when
  its comparison is reached.
\<close>

definition rate_one :: "thresholds \<Rightarrow> real \<Rightarrow> error + string" where
  "rate_one th s =
     (case lookup th ''HIGHLY BELOW TREND'' of Inl e \<Rightarrow> Inl e | Inr t1 \<Rightarrow>
        if s > t1 then Inr ''HIGHLY BELOW TREND'' else
     (case lookup th ''BELOW TREND'' of Inl e \<Rightarrow> Inl e | Inr t2 \<Rightarrow>
        if s > t2 then Inr ''BELOW TREND'' else
     (case lookup th ''ALONG TREND'' of Inl e \<Rightarrow> Inl e | Inr t3 \<Rightarrow>
        if s > t3 then Inr ''ALONG TREND'' else
     (case lookup th ''ABOVE TREND'' of Inl e \<Rightarrow> Inl e | Inr t4 \<Rightarrow>
        if s > t4 then Inr ''ABOVE TREND'' else Inr ''HIGHLY ABOVE TREND''))))"

text \<open>\<^verbatim>\<open>for i in range(len(scores))\<close>, appending to \<^verbatim>\<open>rates\<close>.\<close>

fun rate_loop :: "thresholds \<Rightarrow> real list \<Rightarrow> string list \<Rightarrow> error + string list" where
  "rate_loop th [] rates = Inr rates"
| "rate_loop th (s # ss) rates =
     (case rate_one th s of Inl e \<Rightarrow> Inl e | Inr r \<Rightarrow> rate_loop th ss (rates @ [r]))"

definition rate :: "real list \<Rightarrow> thresholds option \<Rightarrow> error + string list" where
  "rate scores thresholds =
     (let th = (case thresholds of None \<Rightarrow> default_thresholds | Some t \<Rightarrow> t)
      in rate_loop th scores [])"

text \<open>
  The chain of \<open>rate_one\<close> with the values of the default thresholds put in; that
  \<open>rate_one default_thresholds\<close> computes it is proved below.
\<close>

definition default_label :: "real \<Rightarrow> string" where
  "default_label s =
     (if s > 3 then ''HIGHLY BELOW TREND''
      else if s > 2 then ''BELOW TREND''
      else if s > 0 then ''ALONG TREND''
      else if s > - 2 then ''ABOVE TREND''
      else ''HIGHLY ABOVE TREND'')"


text \<open>Sequencing of calls that may raise.\<close>

definition and_then :: "error + 'a \<Rightarrow> ('a \<Rightarrow> error + 'b) \<Rightarrow> error + 'b" where
  "and_then x f = (case x of Inl e \<Rightarrow> Inl e | Inr a \<Rightarrow> f a)"

section \<open>Arrays\<close>

text \<open>
  A two-dimensional array is the list of its rows, a one-dimensional array a list. Entries
  are real numbers: the rounding of \<^verbatim>\<open>float32\<close> and \<^verbatim>\<open>float64\<close> is not modelled, and
  neither are \<^verbatim>\<open>nan\<close> and \<^verbatim>\<open>inf\<close>.
\<close>

type_synonym mat = "real list list"

definition nrows :: "mat \<Rightarrow> nat" where
  "nrows m = length m"

definition ncols :: "mat \<Rightarrow> nat" where
  "ncols m = (case m of [] \<Rightarrow> 0 | r # _ \<Rightarrow> length r)"

text \<open>\<open>is_mat n c m\<close>: \<open>m\<close> has shape \<open>(n, c)\<close>.\<close>

definition is_mat :: "nat \<Rightarrow> nat \<Rightarrow> mat \<Rightarrow> bool" where
  "is_mat n c m = (length m = n \<and> list_all (\<lambda>r. length r = c) m)"

text \<open>
  \<^verbatim>\<open>np.dot(a, b)\<close> and \<^verbatim>\<open>tf.tensordot(a, b, axes=1)\<close> of two-dimensional arrays: the matrix
  product, which raises when the inner dimensions differ.
\<close>

definition np_dot :: "mat \<Rightarrow> mat \<Rightarrow> error + mat" where
  "np_dot a b =
     (if ncols a = nrows b
      then Inr (map (\<lambda>r. map (\<lambda>j. sum_list (map (\<lambda>k. r ! k * b ! k ! j) [0..<nrows b]))
                             [0..<ncols b]) a)
      else Inl ValueError)"

text \<open>
  Broadcasting of an elementwise binary operation: two dimensions are compatible when they
  are equal or one of them is 1, and the dimension of size 1 is read at index 0.
\<close>

definition bdim :: "nat \<Rightarrow> nat \<Rightarrow> nat option" where
  "bdim m n = (if m = n then Some m else if m = 1 then Some n else if n = 1 then Some m else None)"

definition bidx :: "nat \<Rightarrow> nat \<Rightarrow> nat" where
  "bidx n i = (if n = 1 then 0 else i)"

definition broadcast1 :: "(real \<Rightarrow> real \<Rightarrow> real) \<Rightarrow> real list \<Rightarrow> real list \<Rightarrow> error + real list" where
  "broadcast1 f a b =
     (case bdim (length a) (length b) of
        None \<Rightarrow> Inl ValueError
      | Some n \<Rightarrow> Inr (map (\<lambda>i. f (a ! bidx (length a) i) (b ! bidx (length b) i)) [0..<n]))"

definition broadcast2 :: "(real \<Rightarrow> real \<Rightarrow> real) \<Rightarrow> mat \<Rightarrow> mat \<Rightarrow> error + mat" where
  "broadcast2 f a b =
     (case bdim (nrows a) (nrows b) of
        None \<Rightarrow> Inl ValueError
      | Some r \<Rightarrow>
          (case bdim (ncols a) (ncols b) of
             None \<Rightarrow> Inl ValueError
           | Some c \<Rightarrow>
               Inr (map (\<lambda>i. map (\<lambda>j. f (a ! bidx (nrows a) i ! bidx (ncols a) j)
                                          (b ! bidx (nrows b) i ! bidx (ncols b) j))
                                 [0..<c]) [0..<r])))"

text \<open>An elementwise function of one array.\<close>

definition elementwise :: "(real \<Rightarrow> real) \<Rightarrow> mat \<Rightarrow> mat" where
  "elementwise f m = map (map f) m"

section \<open>Statistic estimators\<close>

definition softplus :: "real \<Rightarrow> real" where
  "softplus x = ln (1 + exp x)"

definition estimate_logprice_statistics :: "mat \<Rightarrow> mat \<Rightarrow> mat \<Rightarrow> error + (mat \<times> mat)" where
  "estimate_logprice_statistics phi psi tt =
     and_then (np_dot phi tt) (\<lambda>mean. Inr (mean, elementwise softplus psi))"

definition estimate_price_statistics :: "mat \<Rightarrow> mat \<Rightarrow> error + (mat \<times> mat)" where
  "estimate_price_statistics mu sigma =
     and_then (broadcast2 (+) mu (elementwise (\<lambda>s. s ^ 2 / 2) sigma)) (\<lambda>a.
     and_then (broadcast2 (+) (elementwise (\<lambda>m. 2 * m) mu) (elementwise (\<lambda>s. s ^ 2) sigma)) (\<lambda>b.
     and_then (broadcast2 (*) (elementwise exp b) (elementwise (\<lambda>s. exp (s ^ 2) - 1) sigma)) (\<lambda>c.
     Inr (elementwise exp a, elementwise sqrt c))))"

section \<open>Time bases\<close>

text \<open>
  \<^verbatim>\<open>np.linspace(start, stop, num)\<close>: \<open>num\<close> evenly spaced points with both ends included;
  a single point is \<open>start\<close>.
\<close>

definition linspace :: "real \<Rightarrow> real \<Rightarrow> nat \<Rightarrow> real list" where
  "linspace start stop num =
     map (\<lambda>j. start + real j * ((stop - start) / real (num - 1))) [0..<num]"

text \<open>
  \<^verbatim>\<open>info['tt']\<close> for \<open>t\<close> observed time steps: the row of times raised to each power of the
  column \<^verbatim>\<open>np.arange(order + 1).reshape(-1, 1)\<close>. Python's \<^verbatim>\<open>1 / t\<close> raises for \<open>t = 0\<close>.
\<close>

definition info_tt :: "nat \<Rightarrow> nat \<Rightarrow> error + mat" where
  "info_tt t order =
     (if t = 0 then Inl ZeroDivisionError
      else Inr (map (\<lambda>k. map (\<lambda>x. x ^ k) (linspace (1 / real t) 1 t)) [0..<order + 1]))"

text \<open>
  \<^verbatim>\<open>tt_pred\<close>, computed after \<^verbatim>\<open>info['tt']\<close>, so with \<open>t > 0\<close>.
\<close>

definition tt_pred :: "nat \<Rightarrow> nat \<Rightarrow> nat \<Rightarrow> mat" where
  "tt_pred t horizon order =
     map (\<lambda>k. map (\<lambda>h. (1 + real h / real t) ^ k) [0..<1 + horizon]) [0..<order + 1]"

section \<open>Scores\<close>

text \<open>\<^verbatim>\<open>m[:, j]\<close> for \<open>j \<ge> 0\<close>, and \<^verbatim>\<open>m[:, -1]\<close>.\<close>

definition column :: "mat \<Rightarrow> nat \<Rightarrow> error + real list" where
  "column m j = (if j < ncols m then Inr (map (\<lambda>r. r ! j) m) else Inl IndexError)"

definition last_column :: "mat \<Rightarrow> error + real list" where
  "last_column m = (if ncols m = 0 then Inl IndexError else Inr (map last m))"

text \<open>
  \<^verbatim>\<open>squeeze\<close> of an array of shape \<open>(n, 1)\<close>, the shape of every \<^verbatim>\<open>psi\<close>: the vector of its
  \<open>n\<close> entries.
\<close>

definition squeeze :: "mat \<Rightarrow> real list" where
  "squeeze m = concat m"

text \<open>
  The score expression of the main program. Division by zero does not raise in numpy;
  the standard deviation is a \<open>softplus\<close>, which is positive.
\<close>

definition scores :: "mat \<Rightarrow> mat \<Rightarrow> mat \<Rightarrow> nat \<Rightarrow> error + real list" where
  "scores logp_pred logp std_logp_pred horizon =
     and_then (column logp_pred horizon) (\<lambda>p.
     and_then (last_column logp) (\<lambda>l.
     and_then (broadcast1 (-) p l) (\<lambda>d.
     broadcast1 (/) d (squeeze std_logp_pred))))"

section \<open>Model definition: \<^verbatim>\<open>define_model\<close>\<close>

text \<open>
  \<^verbatim>\<open>info\<close> is the dictionary that the main program fills before training; it is used as
  a structure with fixed keys, so it is a record. Identifiers index rows, from 0.
\<close>

record info =
  tt :: mat
  order_scale :: mat
  num_sectors :: nat
  num_industries :: nat
  sector_industries_id :: "nat list"
  industries_id :: "nat list"
  sectors_id :: "nat list"

text \<open>\<^verbatim>\<open>tfd.Normal(loc, scale)\<close>; a scalar argument is the array \<open>[[x]]\<close>.\<close>

record normal =
  loc :: mat
  scale :: mat

text \<open>
  An entry of the list given to \<^verbatim>\<open>JointDistributionSequentialAutoBatched\<close>: a distribution
  that depends on the values of the entries before it, \<open>vs\<close>, in the order of the list. The
  arguments of each \<^verbatim>\<open>lambda\<close> are the entries just before it, the nearest first, so a
  \<^verbatim>\<open>lambda\<close> at position \<open>n\<close> with arguments \<open>a, b\<close> reads \<open>a\<close> at \<open>n - 1\<close> and \<open>b\<close> at
  \<open>n - 2\<close>.
\<close>

type_synonym layer = "mat list \<Rightarrow> error + normal"

definition item :: "'a list \<Rightarrow> nat \<Rightarrow> error + 'a" where
  "item xs i = (if i < length xs then Inr (xs ! i) else Inl IndexError)"

text \<open>\<^verbatim>\<open>tf.gather(params, ids, axis=0)\<close>: the rows of \<open>params\<close> at \<open>ids\<close>, in the order of \<open>ids\<close>.\<close>

definition gather :: "mat \<Rightarrow> nat list \<Rightarrow> error + mat" where
  "gather params ids =
     (if list_all (\<lambda>i. i < length params) ids then Inr (map (\<lambda>i. params ! i) ids)
      else Inl IndexError)"

text \<open>\<^verbatim>\<open>tf.repeat(m, n, axis=0)\<close>: every row \<open>n\<close> times.\<close>

definition repeat_rows :: "mat \<Rightarrow> nat \<Rightarrow> mat" where
  "repeat_rows m n = concat (map (replicate n) m)"

definition scalar :: "real \<Rightarrow> mat" where
  "scalar x = [[x]]"

definition available_levels :: "string list" where
  "available_levels = [''market'', ''sector'', ''industry'', ''stock'']"

definition phi_m_layer :: "info \<Rightarrow> layer" where
  "phi_m_layer info vs =
     (let order = length (order_scale info) - 1
      in Inr \<lparr>loc = [replicate (order + 1) 0], scale = elementwise ((*) 4) (order_scale info)\<rparr>)"

definition psi_m_layer :: layer where
  "psi_m_layer vs = Inr \<lparr>loc = scalar 0, scale = scalar 4\<rparr>"

definition phi_s_layer :: "info \<Rightarrow> layer" where
  "phi_s_layer info vs =
     and_then (item vs 0) (\<lambda>phi_m.
     Inr \<lparr>loc = repeat_rows phi_m (num_sectors info),
          scale = elementwise ((*) 2) (order_scale info)\<rparr>)"

definition psi_s_layer :: "info \<Rightarrow> layer" where
  "psi_s_layer info vs =
     and_then (item vs 1) (\<lambda>psi_m.
     Inr \<lparr>loc = psi_m, scale = replicate (num_sectors info) [2]\<rparr>)"

definition phi_i_layer :: "info \<Rightarrow> layer" where
  "phi_i_layer info vs =
     and_then (item vs 2) (\<lambda>phi_s.
     and_then (gather phi_s (sector_industries_id info)) (\<lambda>l.
     Inr \<lparr>loc = l, scale = order_scale info\<rparr>))"

definition psi_i_layer :: "info \<Rightarrow> layer" where
  "psi_i_layer info vs =
     and_then (item vs 3) (\<lambda>psi_s.
     and_then (gather psi_s (sector_industries_id info)) (\<lambda>l.
     Inr \<lparr>loc = l, scale = scalar 1\<rparr>))"

definition phi_layer :: "info \<Rightarrow> layer" where
  "phi_layer info vs =
     and_then (item vs 4) (\<lambda>phi_i.
     and_then (gather phi_i (industries_id info)) (\<lambda>l.
     Inr \<lparr>loc = l, scale = elementwise ((*) (1 / 2)) (order_scale info)\<rparr>))"

definition psi_layer :: "info \<Rightarrow> layer" where
  "psi_layer info vs =
     and_then (item vs 5) (\<lambda>psi_i.
     and_then (gather psi_i (industries_id info)) (\<lambda>l.
     Inr \<lparr>loc = l, scale = scalar (1 / 2)\<rparr>))"

text \<open>The observation \<^verbatim>\<open>y\<close> of the level whose \<^verbatim>\<open>phi\<close> is at position \<open>k\<close>.\<close>

definition y_layer :: "info \<Rightarrow> nat \<Rightarrow> layer" where
  "y_layer info k vs =
     and_then (item vs k) (\<lambda>phi.
     and_then (item vs (k + 1)) (\<lambda>psi.
     and_then (np_dot phi (tt info)) (\<lambda>l.
     Inr \<lparr>loc = l, scale = elementwise softplus psi\<rparr>)))"

definition define_model :: "info \<Rightarrow> string \<Rightarrow> error + layer list" where
  "define_model info level =
     (if level \<notin> set available_levels then Inl ConfigError
      else
        let m = [phi_m_layer info, psi_m_layer];
            m = (if level \<noteq> ''market''
                 then m @ [phi_s_layer info, psi_s_layer info] @
                      (if level \<noteq> ''sector''
                       then [phi_i_layer info, psi_i_layer info] @
                            (if level \<noteq> ''industry''
                             then [phi_layer info, psi_layer info] else [])
                       else [])
                 else m);
            m = (if level = ''market'' then m @ [y_layer info 0] else m);
            m = (if level = ''sector'' then m @ [y_layer info 2] else m);
            m = (if level = ''industry'' then m @ [y_layer info 4] else m);
            m = (if level = ''stock'' then m @ [y_layer info 6] else m)
        in Inr m)"

section \<open>The ranking mode check of the main program\<close>

text \<open>
  \<^verbatim>\<open>str.lower\<close> on the letters that matter here: no character outside \<open>A\<close>..\<open>Z\<close> is
  lowered to a letter of \<^verbatim>\<open>rate\<close> or \<^verbatim>\<open>growth\<close>.
\<close>

definition lower_char :: "char \<Rightarrow> char" where
  "lower_char c =
     (let n = (of_char c :: nat) in if 65 \<le> n \<and> n \<le> 90 then char_of (n + 32) else c)"

definition lower :: "string \<Rightarrow> string" where
  "lower s = map lower_char s"

text \<open>
  The main program after argument parsing: the check of \<^verbatim>\<open>args.rank\<close>, then everything
  else (download, training, estimation, output), which is the parameter \<open>run\<close>.
\<close>

definition main :: "string \<Rightarrow> (string \<Rightarrow> error + 'r) \<Rightarrow> error + 'r" where
  "main rank run =
     (if lower rank \<notin> set [''rate'', ''growth''] then Inl ConfigError else run rank)"

section \<open>Staged optimisation: \<^verbatim>\<open>train\<close>\<close>

text \<open>
  The \<^verbatim>\<open>tf.Variable\<close> objects live in a store, by address: \<^verbatim>\<open>phi_m, psi_m\<close> at 0 and 1,
  \<^verbatim>\<open>phi_s, psi_s\<close> at 2 and 3, \<^verbatim>\<open>phi_i, psi_i\<close> at 4 and 5, \<^verbatim>\<open>phi, psi\<close> at 6 and 7.
  \<^verbatim>\<open>tf.constant(v)\<close> reads the value of a variable: the result is an immutable tensor,
  a value of the model.
\<close>

type_synonym heap = "nat \<Rightarrow> mat"

text \<open>
  The closure given to \<^verbatim>\<open>tfp.math.minimize\<close>: the model whose \<^verbatim>\<open>log_prob\<close> it negates,
  the constants and the variables it names, and the observations.
\<close>

record loss_fn =
  lf_model :: "layer list"
  lf_constants :: "mat list"
  lf_variables :: "nat list"
  lf_target :: mat

text \<open>
  \<^verbatim>\<open>tfp.math.minimize(loss_fn, num_steps, optimizer)\<close>: \<open>num_steps\<close> iterations of the
  optimizer, returning the trace of the losses. One iteration is a parameter \<open>step\<close>, about
  which nothing is assumed: it may change the optimizer's own state and any variable of the
  store.
\<close>

fun minimize :: "('s \<Rightarrow> real \<times> 's) \<Rightarrow> nat \<Rightarrow> 's \<Rightarrow> real list \<times> 's" where
  "minimize step 0 s = ([], s)"
| "minimize step (Suc n) s =
     (case step s of (l, s') \<Rightarrow>
        (case minimize step n s' of (ls, s'') \<Rightarrow> (l # ls, s'')))"

text \<open>\<^verbatim>\<open>int(np.ceil(num_steps // 4))\<close>; \<^verbatim>\<open>//\<close> is the floor division of Python's integers.\<close>

definition num_steps_l :: "int \<Rightarrow> int" where
  "num_steps_l num_steps = \<lceil>real_of_int (num_steps div 4)\<rceil>"

definition zeros_like :: "mat \<Rightarrow> mat" where
  "zeros_like m = elementwise (\<lambda>_. 0) m"

text \<open>
  \<^verbatim>\<open>m.mean(0)\<close>, the mean of every column. (For an array without rows numpy gives \<^verbatim>\<open>nan\<close>
  and a warning; the taxonomy gives every group at least one stock.)
\<close>

definition mean0 :: "mat \<Rightarrow> real list" where
  "mean0 m = map (\<lambda>j. sum_list (map (\<lambda>r. r ! j) m) / real (length m)) [0..<ncols m]"

text \<open>\<^verbatim>\<open>logp[np.where(np.array(ids) == k)[0]]\<close>.\<close>

definition rows_where :: "mat \<Rightarrow> nat list \<Rightarrow> nat \<Rightarrow> error + mat" where
  "rows_where logp ids k =
     (let idx = filter (\<lambda>i. ids ! i = k) [0..<length ids]
      in if list_all (\<lambda>i. i < length logp) idx then Inr (map (\<lambda>i. logp ! i) idx)
         else Inl IndexError)"

fun for_each :: "('a \<Rightarrow> error + 'b) \<Rightarrow> 'a list \<Rightarrow> error + 'b list" where
  "for_each f [] = Inr []"
| "for_each f (x # xs) =
     (case f x of Inl e \<Rightarrow> Inl e
      | Inr y \<Rightarrow> (case for_each f xs of Inl e \<Rightarrow> Inl e | Inr ys \<Rightarrow> Inr (y # ys)))"

definition group_means :: "mat \<Rightarrow> nat list \<Rightarrow> nat \<Rightarrow> error + mat" where
  "group_means logp ids n =
     for_each (\<lambda>k. and_then (rows_where logp ids k) (\<lambda>rows. Inr (mean0 rows))) [0..<n]"

text \<open>
  The four stages. \<open>sample\<close> stands for \<^verbatim>\<open>model.sample()\<close>, of which only the shapes are
  used; \<open>opt\<close> is the state of the one Adam optimizer that all stages share.
\<close>

definition market_stage ::
  "(layer list \<Rightarrow> mat list) \<Rightarrow> (loss_fn \<Rightarrow> 'o \<times> heap \<Rightarrow> real \<times> 'o \<times> heap) \<Rightarrow> mat \<Rightarrow> info \<Rightarrow> nat \<Rightarrow>
   'o \<times> heap \<Rightarrow> error + (real list \<times> 'o \<times> heap)" where
  "market_stage sample step logp info n s =
     and_then (define_model info ''market'') (\<lambda>model.
     and_then (item (take 2 (sample model)) 0) (\<lambda>z0.
     and_then (item (take 2 (sample model)) 1) (\<lambda>z1.
     let h = (snd s)(0 := zeros_like z0, 1 := zeros_like z1);
         f = \<lparr>lf_model = model, lf_constants = [], lf_variables = [0, 1],
              lf_target = [mean0 logp]\<rparr>
     in Inr (minimize (step f) n (fst s, h)))))"

definition sector_stage ::
  "(layer list \<Rightarrow> mat list) \<Rightarrow> (loss_fn \<Rightarrow> 'o \<times> heap \<Rightarrow> real \<times> 'o \<times> heap) \<Rightarrow> mat \<Rightarrow> info \<Rightarrow> nat \<Rightarrow>
   'o \<times> heap \<Rightarrow> error + (real list \<times> mat \<times> mat \<times> 'o \<times> heap)" where
  "sector_stage sample step logp info n s =
     and_then (define_model info ''sector'') (\<lambda>model.
     let phi_m = snd s 0; psi_m = snd s 1 in
     and_then (item (take 2 (drop 2 (sample model))) 0) (\<lambda>z0.
     and_then (item (take 2 (drop 2 (sample model))) 1) (\<lambda>z1.
     and_then (group_means logp (sectors_id info) (num_sectors info)) (\<lambda>logp_s.
     let h = (snd s)(2 := zeros_like z0, 3 := zeros_like z1);
         f = \<lparr>lf_model = model, lf_constants = [phi_m, psi_m], lf_variables = [2, 3],
              lf_target = logp_s\<rparr>
     in (case minimize (step f) n (fst s, h) of
           (loss_s, s') \<Rightarrow> Inr (loss_s, phi_m, psi_m, s'))))))"

definition industry_stage ::
  "(layer list \<Rightarrow> mat list) \<Rightarrow> (loss_fn \<Rightarrow> 'o \<times> heap \<Rightarrow> real \<times> 'o \<times> heap) \<Rightarrow> mat \<Rightarrow> info \<Rightarrow> nat \<Rightarrow>
   mat \<Rightarrow> mat \<Rightarrow> 'o \<times> heap \<Rightarrow> error + (real list \<times> mat \<times> mat \<times> 'o \<times> heap)" where
  "industry_stage sample step logp info n phi_m psi_m s =
     and_then (define_model info ''industry'') (\<lambda>model.
     let phi_s = snd s 2; psi_s = snd s 3 in
     and_then (item (take 2 (drop 4 (sample model))) 0) (\<lambda>z0.
     and_then (item (take 2 (drop 4 (sample model))) 1) (\<lambda>z1.
     and_then (group_means logp (industries_id info) (num_industries info)) (\<lambda>logp_i.
     let h = (snd s)(4 := zeros_like z0, 5 := zeros_like z1);
         f = \<lparr>lf_model = model, lf_constants = [phi_m, psi_m, phi_s, psi_s],
              lf_variables = [4, 5], lf_target = logp_i\<rparr>
     in (case minimize (step f) n (fst s, h) of
           (loss_i, s') \<Rightarrow> Inr (loss_i, phi_s, psi_s, s'))))))"

definition stock_stage ::
  "(layer list \<Rightarrow> mat list) \<Rightarrow> (loss_fn \<Rightarrow> 'o \<times> heap \<Rightarrow> real \<times> 'o \<times> heap) \<Rightarrow> mat \<Rightarrow> info \<Rightarrow> nat \<Rightarrow>
   mat \<Rightarrow> mat \<Rightarrow> mat \<Rightarrow> mat \<Rightarrow> 'o \<times> heap \<Rightarrow> error + (real list \<times> mat \<times> mat \<times> 'o \<times> heap)" where
  "stock_stage sample step logp info n phi_m psi_m phi_s psi_s s =
     and_then (define_model info ''stock'') (\<lambda>model.
     let phi_i = snd s 4; psi_i = snd s 5 in
     and_then (item (take 2 (drop 6 (sample model))) 0) (\<lambda>z0.
     and_then (item (take 2 (drop 6 (sample model))) 1) (\<lambda>z1.
     let h = (snd s)(6 := zeros_like z0, 7 := zeros_like z1);
         f = \<lparr>lf_model = model, lf_constants = [phi_m, psi_m, phi_s, psi_s, phi_i, psi_i],
              lf_variables = [6, 7], lf_target = logp\<rparr>
     in (case minimize (step f) n (fst s, h) of
           (loss, s') \<Rightarrow> Inr (loss, phi_i, psi_i, s')))))"

text \<open>
  \<^verbatim>\<open>train\<close>. Its result is the tuple of the eight parameters, the last two read from
  their variables; the four loss traces, which the source only plots, come first.
\<close>

definition train ::
  "(layer list \<Rightarrow> mat list) \<Rightarrow> (loss_fn \<Rightarrow> 'o \<times> heap \<Rightarrow> real \<times> 'o \<times> heap) \<Rightarrow> 'o \<Rightarrow> heap \<Rightarrow>
   mat \<Rightarrow> info \<Rightarrow> int \<Rightarrow>
   error + ((real list \<times> real list \<times> real list \<times> real list) \<times>
            (mat \<times> mat \<times> mat \<times> mat \<times> mat \<times> mat \<times> mat \<times> mat))" where
  "train sample step opt store logp info num_steps =
     (let n = nat (num_steps_l num_steps) in
      and_then (market_stage sample step logp info n (opt, store)) (\<lambda>(loss_m, s1).
      and_then (sector_stage sample step logp info n s1) (\<lambda>(loss_s, phi_m, psi_m, s2).
      and_then (industry_stage sample step logp info n phi_m psi_m s2) (\<lambda>(loss_i, phi_s, psi_s, s3).
      and_then (stock_stage sample step logp info n phi_m psi_m phi_s psi_s s3)
        (\<lambda>(loss, phi_i, psi_i, s4).
      Inr ((loss_m, loss_s, loss_i, loss),
           (phi_m, psi_m, phi_s, psi_s, phi_i, psi_i, snd s4 6, snd s4 7)))))))"

section \<open>Properties of \<^verbatim>\<open>rate\<close>\<close>

lemma lookup_default:
  "lookup default_thresholds ''HIGHLY BELOW TREND'' = Inr 3"
  "lookup default_thresholds ''BELOW TREND'' = Inr 2"
  "lookup default_thresholds ''ALONG TREND'' = Inr 0"
  "lookup default_thresholds ''ABOVE TREND'' = Inr (- 2)"
  by (simp_all add: lookup_def default_thresholds_def)

lemma lookup_upd_highly_above:
  "lookup (th(''HIGHLY ABOVE TREND'' := v)) ''HIGHLY BELOW TREND'' = lookup th ''HIGHLY BELOW TREND''"
  "lookup (th(''HIGHLY ABOVE TREND'' := v)) ''BELOW TREND'' = lookup th ''BELOW TREND''"
  "lookup (th(''HIGHLY ABOVE TREND'' := v)) ''ALONG TREND'' = lookup th ''ALONG TREND''"
  "lookup (th(''HIGHLY ABOVE TREND'' := v)) ''ABOVE TREND'' = lookup th ''ABOVE TREND''"
  by (simp_all add: lookup_def)

lemma rate_one_default: "rate_one default_thresholds s = Inr (default_label s)"
  by (simp add: rate_one_def lookup_default default_label_def)

lemma rate_one_upd_highly_above:
  "rate_one (th(''HIGHLY ABOVE TREND'' := v)) s = rate_one th s"
  unfolding rate_one_def lookup_upd_highly_above ..

lemma rate_loop_cong:
  "(\<And>s. s \<in> set ss \<Longrightarrow> rate_one th s = rate_one th' s) \<Longrightarrow>
   rate_loop th ss acc = rate_loop th' ss acc"
  by (induction ss arbitrary: acc) (auto split: sum.splits)

lemma rate_loop_total:
  "(\<And>s. s \<in> set ss \<Longrightarrow> rate_one th s = Inr (f s)) \<Longrightarrow>
   rate_loop th ss acc = Inr (acc @ map f ss)"
  by (induction ss arbitrary: acc) auto

lemma rate_default_map: "rate xs None = Inr (map default_label xs)"
  using rate_loop_total [of xs default_thresholds default_label "[]"]
  by (simp add: rate_def rate_one_default)

subsection \<open>The five bins of the default thresholds\<close>

text \<open>
  Claim C4, as the code has it. With the default thresholds \<open>rate\<close> is total: it returns
  one label for every score, each one of the five labels, and raises nothing. The bins are
  separated by the four boundaries 3, 2, 0 and \<open>- 2\<close>, compared with a strict \<open>>\<close> from the
  highest down: above 3 is HIGHLY BELOW TREND, above 2 up to 3 is BELOW TREND, above 0 up to
  2 is ALONG TREND, above \<open>- 2\<close> up to 0 is ABOVE TREND, and everything up to \<open>- 2\<close> is
  HIGHLY ABOVE TREND. A score equal to one of the four boundaries is in the bin below it.
  The four examples of the specification hold.
\<close>

theorem rate_default_bins:
  "\<exists>rs. rate xs None = Inr rs \<and> length rs = length xs \<and>
     (\<forall>i<length xs.
        rs ! i \<in> set [''HIGHLY BELOW TREND'', ''BELOW TREND'', ''ALONG TREND'',
                       ''ABOVE TREND'', ''HIGHLY ABOVE TREND''] \<and>
        (rs ! i = ''HIGHLY BELOW TREND'' \<longleftrightarrow> 3 < xs ! i) \<and>
        (rs ! i = ''BELOW TREND'' \<longleftrightarrow> 2 < xs ! i \<and> xs ! i \<le> 3) \<and>
        (rs ! i = ''ALONG TREND'' \<longleftrightarrow> 0 < xs ! i \<and> xs ! i \<le> 2) \<and>
        (rs ! i = ''ABOVE TREND'' \<longleftrightarrow> - 2 < xs ! i \<and> xs ! i \<le> 0) \<and>
        (rs ! i = ''HIGHLY ABOVE TREND'' \<longleftrightarrow> xs ! i \<le> - 2)) \<and>
     rate [3] None = Inr [''BELOW TREND''] \<and>
     rate [2] None = Inr [''ALONG TREND''] \<and>
     rate [0] None = Inr [''ABOVE TREND''] \<and>
     rate [- 2] None = Inr [''HIGHLY ABOVE TREND''] \<and>
     rate [7 / 2] None = Inr [''HIGHLY BELOW TREND''] \<and>
     rate [5 / 2] None = Inr [''BELOW TREND''] \<and>
     rate [- 5 / 2] None = Inr [''HIGHLY ABOVE TREND'']"
  by (simp add: rate_default_map default_label_def)

theorem rate_default_bins_witness:
  "\<exists>rs. rate [1, - 4] None = Inr rs \<and> length rs = 2 \<and> rs ! 0 = ''ALONG TREND'' \<and>
     rs ! 1 = ''HIGHLY ABOVE TREND''"
  using rate_default_bins [of "[1, - 4]"] by (auto simp: less_Suc_eq)

text \<open>
  The value \<open>- 3\<close> of the default thresholds bounds no bin: a score equal to it has the
  label of the scores just above it and just below it.
\<close>

theorem rate_lowest_threshold_counterexample:
  "rate [- 3] None = Inr [''HIGHLY ABOVE TREND''] \<and>
   rate [- 5 / 2] None = Inr [''HIGHLY ABOVE TREND''] \<and>
   rate [- 7 / 2] None = Inr [''HIGHLY ABOVE TREND'']"
  by (simp add: rate_default_map default_label_def)

subsection \<open>The threshold that is never read\<close>

text \<open>
  Claim C10. \<open>rate\<close> never reads the threshold of HIGHLY ABOVE TREND: with the default
  thresholds a score has that label exactly when it is at most \<open>- 2\<close>, the threshold of
  ABOVE TREND, and giving the HIGHLY ABOVE TREND key any other value (or none) leaves the
  result for every input array as it is.
\<close>

theorem rate_ignores_lowest_threshold:
  "rate xs (Some (default_thresholds(''HIGHLY ABOVE TREND'' := v))) = rate xs None \<and>
   (\<exists>rs. rate xs None = Inr rs \<and> length rs = length xs \<and>
      (\<forall>i<length xs. rs ! i = ''HIGHLY ABOVE TREND'' \<longleftrightarrow> xs ! i \<le> - 2))"
proof -
  have "rate xs (Some (default_thresholds(''HIGHLY ABOVE TREND'' := v))) = rate xs None"
    by (simp add: rate_def rate_loop_cong [OF rate_one_upd_highly_above])
  then show ?thesis
    by (simp add: rate_default_map default_label_def)
qed

theorem rate_ignores_lowest_threshold_witness:
  "rate [- 5 / 2, 1] (Some (default_thresholds(''HIGHLY ABOVE TREND'' \<mapsto> 100))) =
     rate [- 5 / 2, 1] None \<and>
   (\<exists>rs. rate [- 5 / 2, 1] None = Inr rs \<and> rs ! 0 = ''HIGHLY ABOVE TREND'' \<and>
      rs ! 1 \<noteq> ''HIGHLY ABOVE TREND'')"
  using rate_ignores_lowest_threshold [of "[- 5 / 2, 1]" "Some 100"]
  by (auto simp: less_Suc_eq)

section \<open>Properties of the time bases\<close>

lemma linspace_length: "length (linspace a b n) = n"
  by (simp add: linspace_def)

lemma linspace_unit_nth:
  assumes "j < t"
  shows "linspace (1 / real t) 1 t ! j = real (j + 1) / real t"
proof (cases "t = 1")
  case True
  with assms show ?thesis by (simp add: linspace_def)
next
  case False
  with assms have t: "1 < t" by simp
  then have "(1 - 1 / real t) / real (t - 1) = 1 / real t"
    by (simp add: field_simps of_nat_diff)
  with assms show ?thesis
    by (simp add: linspace_def add_divide_distrib)
qed

lemma tt_pred_entries:
  assumes "0 < T" "k \<le> order"
  shows "length (tt_pred T horizon order ! k) = horizon + 1"
    and "h \<le> horizon \<Longrightarrow> tt_pred T horizon order ! k ! h = ((real T + real h) / real T) ^ k"
proof -
  have row: "tt_pred T horizon order ! k = map (\<lambda>h. (1 + real h / real T) ^ k) [0..<1 + horizon]"
    using assms(2) unfolding tt_pred_def by (simp del: upt_Suc)
  show "length (tt_pred T horizon order ! k) = horizon + 1"
    by (simp add: row)
  have c: "1 + real h / real T = (real T + real h) / real T"
    using assms(1) by (simp add: add_divide_distrib)
  show "tt_pred T horizon order ! k ! h = ((real T + real h) / real T) ^ k" if "h \<le> horizon"
    using that by (simp add: row c del: upt_Suc)
qed

lemma info_tt_entries:
  assumes "0 < T"
  shows "info_tt T order = Inr (map (\<lambda>k. map (\<lambda>x. x ^ k) (linspace (1 / real T) 1 T)) [0..<order + 1])"
    and "k \<le> order \<Longrightarrow>
         length (map (\<lambda>k. map (\<lambda>x. x ^ k) (linspace (1 / real T) 1 T)) [0..<order + 1] ! k) = T"
    and "k \<le> order \<Longrightarrow> j < T \<Longrightarrow>
         map (\<lambda>k. map (\<lambda>x. x ^ k) (linspace (1 / real T) 1 T)) [0..<order + 1] ! k ! j =
           (real (j + 1) / real T) ^ k"
proof -
  show "info_tt T order = Inr (map (\<lambda>k. map (\<lambda>x. x ^ k) (linspace (1 / real T) 1 T)) [0..<order + 1])"
    using assms by (simp add: info_tt_def)
  have row: "map (\<lambda>k. map (\<lambda>x. x ^ k) (linspace (1 / real T) 1 T)) [0..<order + 1] ! k =
      map (\<lambda>x. x ^ k) (linspace (1 / real T) 1 T)" if "k \<le> order"
    using that by (simp del: upt_Suc)
  show "k \<le> order \<Longrightarrow>
         length (map (\<lambda>k. map (\<lambda>x. x ^ k) (linspace (1 / real T) 1 T)) [0..<order + 1] ! k) = T"
    by (simp only: row linspace_length length_map)
  show "k \<le> order \<Longrightarrow> j < T \<Longrightarrow>
         map (\<lambda>k. map (\<lambda>x. x ^ k) (linspace (1 / real T) 1 T)) [0..<order + 1] ! k ! j =
           (real (j + 1) / real T) ^ k"
    by (simp only: row linspace_length nth_map linspace_unit_nth)
qed

text \<open>
  Claim C7, as the code has it. For \<open>T > 0\<close> observed time steps the historical basis
  \<open>tt\<close> has \<open>order + 1\<close> rows of \<open>T\<close> entries, and row \<open>k\<close> holds \<open>(t / T) ^ k\<close> for
  \<open>t = 1..T\<close> (entry \<open>j\<close>, counted from 0, is the time step \<open>j + 1\<close>). The forecast basis
  \<open>tt_pred\<close> has \<open>order + 1\<close> rows of \<open>horizon + 1\<close> entries, and entry \<open>h\<close> of row \<open>k\<close>
  holds \<open>((T + h) / T) ^ k\<close> for the offsets \<open>h = 0..horizon\<close>: it starts at the last
  observed time step, offset 0, and is normalised by \<open>T\<close> as \<open>tt\<close> is.
\<close>

theorem time_bases:
  assumes "0 < T"
  shows "(\<exists>tb. info_tt T order = Inr tb \<and> length tb = order + 1 \<and>
            (\<forall>k\<le>order. length (tb ! k) = T \<and>
               (\<forall>j<T. tb ! k ! j = (real (j + 1) / real T) ^ k))) \<and>
         length (tt_pred T horizon order) = order + 1 \<and>
         (\<forall>k\<le>order. length (tt_pred T horizon order ! k) = horizon + 1 \<and>
            (\<forall>h\<le>horizon. tt_pred T horizon order ! k ! h = ((real T + real h) / real T) ^ k))"
proof (intro conjI)
  show "\<exists>tb. info_tt T order = Inr tb \<and> length tb = order + 1 \<and>
            (\<forall>k\<le>order. length (tb ! k) = T \<and>
               (\<forall>j<T. tb ! k ! j = (real (j + 1) / real T) ^ k))"
  proof -
    let ?tb = "map (\<lambda>k. map (\<lambda>x. x ^ k) (linspace (1 / real T) 1 T)) [0..<order + 1]"
    note e = info_tt_entries [OF assms, where order = order]
    have 1: "info_tt T order = Inr ?tb" by (rule e(1))
    have 2: "length ?tb = order + 1" by simp
    have 3: "\<forall>k\<le>order. length (?tb ! k) = T \<and>
               (\<forall>j<T. ?tb ! k ! j = (real (j + 1) / real T) ^ k)"
      using e(2) e(3) by blast
    from 1 2 3 show ?thesis by blast
  qed
  show "length (tt_pred T horizon order) = order + 1"
    by (simp add: tt_pred_def)
  show "\<forall>k\<le>order. length (tt_pred T horizon order ! k) = horizon + 1 \<and>
            (\<forall>h\<le>horizon. tt_pred T horizon order ! k ! h = ((real T + real h) / real T) ^ k)"
    using tt_pred_entries [OF assms] by blast
qed

theorem time_bases_witness:
  "(\<exists>tb. info_tt 2 2 = Inr tb \<and> tb ! 2 ! 0 = 1 / 4 \<and> tb ! 2 ! 1 = 1) \<and>
   tt_pred 2 5 2 ! 2 ! 5 = 49 / 4 \<and> tt_pred 2 5 2 ! 2 ! 0 = 1"
  using time_bases [of 2 2 5] 
  apply (simp add: le_Suc_eq less_Suc_eq numeral_2_eq_2 power2_eq_square all_conj_distrib)
  apply (auto simp: power2_eq_square)
  done

text \<open>
  For \<open>T = 2\<close>, \<open>horizon = 5\<close> the row of first powers of \<open>tt_pred\<close> has six entries and
  starts with \<open>(T + 0) / T = 1\<close>; it is not the row of the five offsets \<open>T + 1..T + 5\<close>.
\<close>

theorem tt_pred_counterexample:
  "tt_pred 2 5 2 ! 1 = [1, 3 / 2, 2, 5 / 2, 3, 7 / 2] \<and>
   tt_pred 2 5 2 ! 1 \<noteq> [3 / 2, 2, 5 / 2, 3, 7 / 2] \<and>
   length (tt_pred 2 5 2 ! 1) = 5 + 1"
  by (simp add: tt_pred_def upt_rec)

section \<open>Properties of the iteration budget\<close>

lemma minimize_length: "length (fst (minimize step n s)) = n"
proof (induction n arbitrary: s)
  case 0
  show ?case by simp
next
  case (Suc n)
  obtain l s' where a: "step s = (l, s')" by (cases "step s")
  obtain ls s'' where b: "minimize step n s' = (ls, s'')" by (cases "minimize step n s'")
  from Suc [of s'] b have "length ls = n" by simp
  with a b show ?case by simp
qed

text \<open>
  Claim C2 at \<open>num_steps = 5\<close>. The number of iterations of each stage is
  \<open>num_steps_l 5 = 1\<close>, the floor of \<open>5 / 4\<close>, and a stage run with it makes one
  iteration; the ceiling of \<open>5 / 4\<close> is 2.
\<close>

theorem num_steps_l_floor_not_ceiling:
  "num_steps_l 5 = 1 \<and> \<lceil>(5 :: real) / 4\<rceil> = (2 :: int) \<and>
   length (fst (minimize (\<lambda>s :: unit. (0, s)) (nat (num_steps_l 5)) ())) = 1"
proof -
  have "\<lceil>(5 :: real) / 4\<rceil> = (2 :: int)" by linarith
  then show ?thesis by (simp add: num_steps_l_def minimize_length)
qed

section \<open>Properties of \<^verbatim>\<open>define_model\<close> and of the ranking mode check\<close>

lemma define_model_stock:
  "define_model info ''stock'' =
     Inr [phi_m_layer info, psi_m_layer, phi_s_layer info, psi_s_layer info,
          phi_i_layer info, psi_i_layer info, phi_layer info, psi_layer info, y_layer info 6]"
  by (simp add: define_model_def available_levels_def)

lemma define_model_industry:
  "define_model info ''industry'' =
     Inr [phi_m_layer info, psi_m_layer, phi_s_layer info, psi_s_layer info,
          phi_i_layer info, psi_i_layer info, y_layer info 4]"
  by (simp add: define_model_def available_levels_def)

lemma define_model_sector:
  "define_model info ''sector'' =
     Inr [phi_m_layer info, psi_m_layer, phi_s_layer info, psi_s_layer info, y_layer info 2]"
  by (simp add: define_model_def available_levels_def)

lemma define_model_market:
  "define_model info ''market'' = Inr [phi_m_layer info, psi_m_layer, y_layer info 0]"
  by (simp add: define_model_def available_levels_def)

lemma define_model_unknown:
  "level \<notin> set available_levels \<Longrightarrow> define_model info level = Inl ConfigError"
  by (simp add: define_model_def)

lemma lower_examples: "lower ''Fast'' = ''fast''" "lower ''Rate'' = ''rate''"
  by code_simp+

text \<open>
  Claim C8. \<open>define_model\<close> raises the configuration error when the level is not one of
  \<open>market\<close>, \<open>sector\<close>, \<open>industry\<close>, \<open>stock\<close>, and then returns no layer at all; for each
  of the four levels it raises nothing and returns the list of layers. The main program
  raises the configuration error on a ranking mode that is neither \<open>rate\<close> nor \<open>growth\<close>
  (compared in lower case) whatever the rest of the program \<open>run\<close> would do, and otherwise
  goes on with \<open>run\<close>.
\<close>

theorem configuration_errors:
  "(level \<notin> set [''market'', ''sector'', ''industry'', ''stock''] \<longrightarrow>
      define_model info level = Inl ConfigError) \<and>
   (level \<in> set [''market'', ''sector'', ''industry'', ''stock''] \<longrightarrow>
      (\<exists>m. define_model info level = Inr m \<and> m \<noteq> [])) \<and>
   (lower rank \<notin> set [''rate'', ''growth''] \<longrightarrow> main rank run = Inl ConfigError) \<and>
   (lower rank \<in> set [''rate'', ''growth''] \<longrightarrow> main rank run = run rank)"
proof -
  have "define_model info level = Inl ConfigError"
    if "level \<notin> set [''market'', ''sector'', ''industry'', ''stock'']"
    using that define_model_unknown [of level info] by (simp add: available_levels_def)
  moreover have "\<exists>m. define_model info level = Inr m \<and> m \<noteq> []"
    if "level \<in> set [''market'', ''sector'', ''industry'', ''stock'']"
    using that define_model_market [of info] define_model_sector [of info]
      define_model_industry [of info] define_model_stock [of info]
    by auto
  ultimately show ?thesis
    by (simp add: main_def)
qed

theorem configuration_errors_witness:
  "define_model \<lparr>tt = [[1]], order_scale = [[1]], num_sectors = 1, num_industries = 1,
      sector_industries_id = [0], industries_id = [0], sectors_id = [0]\<rparr> ''country'' =
     Inl ConfigError \<and>
   (\<exists>m. define_model \<lparr>tt = [[1]], order_scale = [[1]], num_sectors = 1, num_industries = 1,
      sector_industries_id = [0], industries_id = [0], sectors_id = [0]\<rparr> ''sector'' = Inr m) \<and>
   main ''Fast'' (\<lambda>r. Inr (length r)) = Inl ConfigError \<and>
   main ''Rate'' (\<lambda>r. Inr (length r)) = Inr 4"
  using configuration_errors [of "''country''" "\<lparr>tt = [[1]], order_scale = [[1]], num_sectors = 1,
      num_industries = 1, sector_industries_id = [0], industries_id = [0], sectors_id = [0]\<rparr>"
      "''Fast''" "\<lambda>r. Inr (length r)"]
    configuration_errors [of "''sector''" "\<lparr>tt = [[1]], order_scale = [[1]], num_sectors = 1,
      num_industries = 1, sector_industries_id = [0], industries_id = [0], sectors_id = [0]\<rparr>"
      "''Rate''" "\<lambda>r. Inr (length r)"]
  by (auto simp: lower_examples)

lemma gather_ok:
  assumes "\<forall>j<length ids. ids ! j < length params"
  shows "gather params ids = Inr (map (\<lambda>i. params ! i) ids)"
  using assms by (simp add: gather_def list_all_length)

text \<open>
  Claim C6. In the model of the stock level, layer 6 is the prior of the stock parameters
  \<open>phi\<close> and layer 4 the prior of the industry parameters \<open>phi_i\<close>; \<open>vs\<close> holds the values
  of the layers, \<open>vs ! 2\<close> the sector rows \<open>phi_s\<close> and \<open>vs ! 4\<close> the industry rows \<open>phi_i\<close>.
  With identifiers in range and one row of \<open>phi_i\<close> per industry, the location of the stock
  prior has one row per stock in the order of the stocks, row \<open>j\<close> being the row of
  \<open>phi_i\<close> gathered at \<open>industries_id ! j\<close>; the location of the industry prior has one row
  per industry in the order of the industries; and when
  \<open>sector_industries_id ! (industries_id ! j) = sectors_id ! j\<close> for every stock \<open>j\<close>, the
  industry prior mean of stock \<open>j\<close> is the row of \<open>phi_s\<close> of its recorded sector.
\<close>

theorem stock_prior_follows_hierarchy:
  assumes enough: "6 \<le> length vs"
    and industries: "\<forall>j<length (industries_id info).
           industries_id info ! j < length (sector_industries_id info)"
    and sectors: "\<forall>i<length (sector_industries_id info).
           sector_industries_id info ! i < length (vs ! 2)"
    and rows: "length (vs ! 4) = length (sector_industries_id info)"
    and consistent: "\<forall>j<length (industries_id info).
           sector_industries_id info ! (industries_id info ! j) = sectors_id info ! j"
  shows "\<exists>m stock_prior industry_prior.
           define_model info ''stock'' = Inr m \<and> length m = 9 \<and>
           (m ! 6) vs = Inr stock_prior \<and> (m ! 4) vs = Inr industry_prior \<and>
           length (loc stock_prior) = length (industries_id info) \<and>
           length (loc industry_prior) = length (sector_industries_id info) \<and>
           (\<forall>j<length (industries_id info).
              loc stock_prior ! j = vs ! 4 ! (industries_id info ! j) \<and>
              loc industry_prior ! (industries_id info ! j) = vs ! 2 ! (sectors_id info ! j))"
proof -
  let ?sp = "\<lparr>loc = map (\<lambda>i. vs ! 4 ! i) (industries_id info),
              scale = elementwise ((*) (1 / 2)) (order_scale info)\<rparr>"
  let ?ip = "\<lparr>loc = map (\<lambda>i. vs ! 2 ! i) (sector_industries_id info),
              scale = order_scale info\<rparr>"
  have g4: "gather (vs ! 4) (industries_id info) = Inr (map (\<lambda>i. vs ! 4 ! i) (industries_id info))"
    using industries rows by (intro gather_ok) simp
  have g2: "gather (vs ! 2) (sector_industries_id info) =
      Inr (map (\<lambda>i. vs ! 2 ! i) (sector_industries_id info))"
    using sectors by (intro gather_ok) simp
  have sp: "phi_layer info vs = Inr ?sp"
    using enough by (simp add: phi_layer_def item_def and_then_def g4)
  have ip: "phi_i_layer info vs = Inr ?ip"
    using enough by (simp add: phi_i_layer_def item_def and_then_def g2)
  have entries: "loc ?sp ! j = vs ! 4 ! (industries_id info ! j) \<and>
      loc ?ip ! (industries_id info ! j) = vs ! 2 ! (sectors_id info ! j)"
    if "j < length (industries_id info)" for j
    using that industries consistent by simp
  show ?thesis
    apply (rule exI [of _ "[phi_m_layer info, psi_m_layer, phi_s_layer info, psi_s_layer info,
          phi_i_layer info, psi_i_layer info, phi_layer info, psi_layer info, y_layer info 6]"])
    apply (rule exI [of _ ?sp])
    apply (rule exI [of _ ?ip])
    using entries sp ip by (simp add: define_model_stock)
qed

theorem stock_prior_follows_hierarchy_witness:
  "\<exists>m stock_prior industry_prior.
     define_model \<lparr>tt = [[1]], order_scale = [[1]], num_sectors = 2, num_industries = 2,
        sector_industries_id = [1, 0], industries_id = [1, 0, 1], sectors_id = [0, 1, 0]\<rparr>
        ''stock'' = Inr m \<and>
     (m ! 6) [[[5]], [[0]], [[10], [20]], [[0], [0]], [[1], [2]], [[0], [0]]] = Inr stock_prior \<and>
     (m ! 4) [[[5]], [[0]], [[10], [20]], [[0], [0]], [[1], [2]], [[0], [0]]] = Inr industry_prior \<and>
     loc stock_prior ! 0 = [2] \<and> loc industry_prior ! 1 = [10]"
proof -
  let ?info = "\<lparr>tt = [[1]], order_scale = [[1]], num_sectors = 2, num_industries = 2,
        sector_industries_id = [1, 0], industries_id = [1, 0, 1], sectors_id = [0, 1, 0]\<rparr>"
  let ?vs = "[[[5]], [[0]], [[10], [20]], [[0], [0]], [[1], [2]], [[0], [0 :: real]]]"
  have "\<exists>m stock_prior industry_prior.
           define_model ?info ''stock'' = Inr m \<and> length m = 9 \<and>
           (m ! 6) ?vs = Inr stock_prior \<and> (m ! 4) ?vs = Inr industry_prior \<and>
           length (loc stock_prior) = length (industries_id ?info) \<and>
           length (loc industry_prior) = length (sector_industries_id ?info) \<and>
           (\<forall>j<length (industries_id ?info).
              loc stock_prior ! j = ?vs ! 4 ! (industries_id ?info ! j) \<and>
              loc industry_prior ! (industries_id ?info ! j) = ?vs ! 2 ! (sectors_id ?info ! j))"
    by (rule stock_prior_follows_hierarchy) (simp_all add: All_less_Suc)
  then obtain m sp ip where m: "define_model ?info ''stock'' = Inr m"
    and sp: "(m ! 6) ?vs = Inr sp" and ip: "(m ! 4) ?vs = Inr ip"
    and e: "\<forall>j<length (industries_id ?info).
              loc sp ! j = ?vs ! 4 ! (industries_id ?info ! j) \<and>
              loc ip ! (industries_id ?info ! j) = ?vs ! 2 ! (sectors_id ?info ! j)"
    by blast
  from e have "loc sp ! 0 = [2] \<and> loc ip ! 1 = [10]"
    by (simp add: All_less_Suc)
  with m sp ip show ?thesis by blast
qed

section \<open>Properties of arrays\<close>

lemma is_mat_rows: "is_mat n c m \<Longrightarrow> nrows m = n"
  by (simp add: is_mat_def nrows_def)

lemma is_mat_row_length: "is_mat n c m \<Longrightarrow> i < n \<Longrightarrow> length (m ! i) = c"
  by (simp add: is_mat_def list_all_length)

lemma is_mat_cols: "is_mat n c m \<Longrightarrow> 0 < n \<Longrightarrow> ncols m = c"
  by (cases m) (simp_all add: is_mat_def ncols_def)

lemma is_mat_table:
  "is_mat n c (map (\<lambda>i. map (f i) [0..<c]) [0..<n])"
  by (simp add: is_mat_def list_all_length)

lemma table_nth:
  "i < n \<Longrightarrow> j < c \<Longrightarrow> map (\<lambda>i. map (f i) [0..<c]) [0..<n] ! i ! j = f i j"
  by simp

lemma elementwise_mat: "is_mat n c m \<Longrightarrow> is_mat n c (elementwise f m)"
  by (simp add: is_mat_def elementwise_def list_all_length)

lemma elementwise_nth:
  "is_mat n c m \<Longrightarrow> i < n \<Longrightarrow> j < c \<Longrightarrow> elementwise f m ! i ! j = f (m ! i ! j)"
  by (simp add: is_mat_def elementwise_def list_all_length)

lemma bidx_id: "i < n \<Longrightarrow> bidx n i = i"
  by (simp add: bidx_def)

lemma bdim_same: "bdim n n = Some n"
  by (simp add: bdim_def)

lemma bdim_one: "bdim n 1 = Some n"
  by (simp add: bdim_def)

text \<open>An array of shape \<open>(n, t)\<close> combined with a column of shape \<open>(n, 1)\<close>.\<close>

lemma broadcast2_column:
  assumes "is_mat n t a" "is_mat n 1 b" "0 < n" "0 < t"
  shows "broadcast2 f a b = Inr (map (\<lambda>i. map (\<lambda>j. f (a ! i ! j) (b ! i ! 0)) [0..<t]) [0..<n])"
proof -
  have shape: "nrows a = n" "nrows b = n" "ncols a = t" "ncols b = 1"
    using assms by (simp_all add: is_mat_rows is_mat_cols)
  have eq: "map (\<lambda>i. map (\<lambda>j. f (a ! bidx n i ! bidx t j) (b ! bidx n i ! bidx 1 j)) [0..<t]) [0..<n] =
        map (\<lambda>i. map (\<lambda>j. f (a ! i ! j) (b ! i ! 0)) [0..<t]) [0..<n]"
    by (intro map_cong refl) (simp add: bidx_id, simp add: bidx_def)
  show ?thesis
    unfolding broadcast2_def shape bdim_same bdim_one option.case eq ..
qed

lemma np_dot_product:
  assumes "is_mat n k a" "is_mat k t b" "0 < n" "0 < k"
  shows "np_dot a b =
     Inr (map (\<lambda>r. map (\<lambda>j. sum_list (map (\<lambda>l. r ! l * b ! l ! j) [0..<k])) [0..<t]) a)"
  using assms by (simp add: np_dot_def is_mat_rows is_mat_cols)

lemma sum_list_upt: "sum_list (map f [0..<k]) = (\<Sum>l<k. f l)"
  by (simp add: interv_sum_list_conv_sum_set_nat atLeast0LessThan)

lemma softplus_pos: "0 < softplus x"
  using ln_gt_zero [of "1 + exp x"] by (simp add: softplus_def)

section \<open>Properties of the statistic estimators\<close>

lemma estimate_logprice_statistics_entries:
  assumes "is_mat n k phi" "is_mat n 1 psi" "is_mat k t tb" "0 < n" "0 < k"
  shows "\<exists>mean std. estimate_logprice_statistics phi psi tb = Inr (mean, std) \<and>
           is_mat n t mean \<and> is_mat n 1 std \<and>
           (\<forall>i<n. (\<forall>j<t. mean ! i ! j = (\<Sum>l<k. phi ! i ! l * tb ! l ! j)) \<and>
                  std ! i ! 0 = ln (1 + exp (psi ! i ! 0)))"
proof -
  let ?mean = "map (\<lambda>r. map (\<lambda>j. sum_list (map (\<lambda>l. r ! l * tb ! l ! j) [0..<k])) [0..<t]) phi"
  have n: "length phi = n"
    using assms(1) by (simp add: is_mat_def)
  have "estimate_logprice_statistics phi psi tb = Inr (?mean, elementwise softplus psi)"
    by (simp add: estimate_logprice_statistics_def and_then_def np_dot_product [OF assms(1,3,4,5)])
  moreover have "is_mat n t ?mean"
    by (simp add: is_mat_def n list_all_length)
  moreover have "is_mat n 1 (elementwise softplus psi)"
    by (rule elementwise_mat [OF assms(2)])
  moreover have "?mean ! i ! j = (\<Sum>l<k. phi ! i ! l * tb ! l ! j)" if "i < n" "j < t" for i j
    using that by (simp add: n sum_list_upt)
  moreover have "elementwise softplus psi ! i ! 0 = ln (1 + exp (psi ! i ! 0))" if "i < n" for i
    using elementwise_nth [OF assms(2) that, of 0 softplus] by (simp add: softplus_def)
  ultimately show ?thesis by blast
qed

lemma estimate_price_statistics_entries:
  assumes "is_mat n t mu" "is_mat n 1 sigma" "0 < n" "0 < t"
  shows "\<exists>mean_price std_price. estimate_price_statistics mu sigma = Inr (mean_price, std_price) \<and>
           is_mat n t mean_price \<and> is_mat n t std_price \<and>
           (\<forall>i<n. \<forall>j<t.
              mean_price ! i ! j = exp (mu ! i ! j + (sigma ! i ! 0) ^ 2 / 2) \<and>
              std_price ! i ! j =
                sqrt (exp (2 * mu ! i ! j + (sigma ! i ! 0) ^ 2) * (exp ((sigma ! i ! 0) ^ 2) - 1)))"
proof -
  let ?a = "map (\<lambda>i. map (\<lambda>j. mu ! i ! j + (sigma ! i ! 0) ^ 2 / 2) [0..<t]) [0..<n]"
  let ?b = "map (\<lambda>i. map (\<lambda>j. 2 * mu ! i ! j + (sigma ! i ! 0) ^ 2) [0..<t]) [0..<n]"
  let ?c = "map (\<lambda>i. map (\<lambda>j. exp (2 * mu ! i ! j + (sigma ! i ! 0) ^ 2) *
                                 (exp ((sigma ! i ! 0) ^ 2) - 1)) [0..<t]) [0..<n]"
  have col: "elementwise g sigma ! i ! 0 = g (sigma ! i ! 0)" if "i < n" for g i
    using elementwise_nth [OF assms(2) that, of 0 g] by simp
  have a: "broadcast2 (+) mu (elementwise (\<lambda>s. s ^ 2 / 2) sigma) = Inr ?a"
    unfolding broadcast2_column [OF assms(1) elementwise_mat [OF assms(2)] assms(3,4)]
    by (simp add: col)
  have b: "broadcast2 (+) (elementwise (\<lambda>m. 2 * m) mu) (elementwise (\<lambda>s. s ^ 2) sigma) = Inr ?b"
    unfolding broadcast2_column [OF elementwise_mat [OF assms(1)] elementwise_mat [OF assms(2)]
        assms(3,4)]
    by (simp add: col elementwise_nth [OF assms(1)])
  have mb: "is_mat n t (elementwise exp ?b)"
    by (intro elementwise_mat is_mat_table)
  have c: "broadcast2 (*) (elementwise exp ?b) (elementwise (\<lambda>s. exp (s ^ 2) - 1) sigma) = Inr ?c"
    unfolding broadcast2_column [OF mb elementwise_mat [OF assms(2)] assms(3,4)]
    by (simp add: col elementwise_nth [OF is_mat_table])
  have "estimate_price_statistics mu sigma = Inr (elementwise exp ?a, elementwise sqrt ?c)"
    by (simp add: estimate_price_statistics_def and_then_def a b c)
  moreover have "is_mat n t (elementwise exp ?a)" "is_mat n t (elementwise sqrt ?c)"
    by (intro elementwise_mat is_mat_table)+
  moreover have "elementwise exp ?a ! i ! j = exp (mu ! i ! j + (sigma ! i ! 0) ^ 2 / 2)"
    if "i < n" "j < t" for i j
    using that by (simp add: elementwise_def)
  moreover have "elementwise sqrt ?c ! i ! j =
      sqrt (exp (2 * mu ! i ! j + (sigma ! i ! 0) ^ 2) * (exp ((sigma ! i ! 0) ^ 2) - 1))"
    if "i < n" "j < t" for i j
    using that by (simp add: elementwise_def)
  ultimately show ?thesis by blast
qed

text \<open>
  Claim C5. For \<open>phi\<close> of shape \<open>(n, k)\<close>, \<open>psi\<close> of shape \<open>(n, 1)\<close> and a time basis of shape
  \<open>(k, t)\<close>, all sizes positive, \<open>estimate_logprice_statistics\<close> returns the matrix
  product of \<open>phi\<close> and the basis as the mean and \<open>ln (1 + exp psi)\<close> as the standard
  deviation, one column that stands for every time. For \<open>mu\<close> of shape \<open>(n, t)\<close> and
  \<open>sigma\<close> of shape \<open>(n, 1)\<close>, \<open>estimate_price_statistics\<close> returns
  \<open>exp (mu + sigma\<^sup>2 / 2)\<close> and \<open>sqrt (exp (2 mu + sigma\<^sup>2) (exp (sigma\<^sup>2) - 1))\<close> entry by
  entry, the column \<open>sigma\<close> read at every time. Both are functions of their arguments
  alone, whatever level the arguments come from.
\<close>

theorem estimator_formulas:
  assumes "0 < n" "0 < k" "0 < t"
    and "is_mat n k phi" "is_mat n 1 psi" "is_mat k t tb"
    and "is_mat n t mu" "is_mat n 1 sigma"
  shows "(\<exists>mean_logp std_logp.
            estimate_logprice_statistics phi psi tb = Inr (mean_logp, std_logp) \<and>
            is_mat n t mean_logp \<and> is_mat n 1 std_logp \<and>
            (\<forall>i<n. (\<forall>j<t. mean_logp ! i ! j = (\<Sum>l<k. phi ! i ! l * tb ! l ! j)) \<and>
                   std_logp ! i ! 0 = ln (1 + exp (psi ! i ! 0)))) \<and>
         (\<exists>mean_price std_price.
            estimate_price_statistics mu sigma = Inr (mean_price, std_price) \<and>
            is_mat n t mean_price \<and> is_mat n t std_price \<and>
            (\<forall>i<n. \<forall>j<t.
               mean_price ! i ! j = exp (mu ! i ! j + (sigma ! i ! 0) ^ 2 / 2) \<and>
               std_price ! i ! j =
                 sqrt (exp (2 * mu ! i ! j + (sigma ! i ! 0) ^ 2) *
                       (exp ((sigma ! i ! 0) ^ 2) - 1))))"
  using estimate_logprice_statistics_entries [OF assms(4,5,6,1,2)]
    estimate_price_statistics_entries [OF assms(7,8,1,3)]
  by (rule conjI)

theorem estimator_formulas_witness:
  "(\<exists>mean_logp std_logp.
      estimate_logprice_statistics [[1, 2]] [[0]] [[1], [1]] = Inr (mean_logp, std_logp) \<and>
      mean_logp ! 0 ! 0 = 3 \<and> std_logp ! 0 ! 0 = ln 2) \<and>
   (\<exists>mean_price std_price.
      estimate_price_statistics [[0]] [[1]] = Inr (mean_price, std_price) \<and>
      mean_price ! 0 ! 0 = exp (1 / 2) \<and> std_price ! 0 ! 0 = sqrt (exp 1 * (exp 1 - 1)))"
  using estimator_formulas [of 1 2 1 "[[1, 2]]" "[[0]]" "[[1], [1]]" "[[0]]" "[[1]]"]
  by (simp add: is_mat_def lessThan_Suc numeral_2_eq_2) blast

text \<open>
  Claim C9. \<open>estimate_price_statistics\<close> applied to the result of
  \<open>estimate_logprice_statistics\<close> returns a mean price that is at least the exponential of
  the mean log-price, in every entry; the standard deviation it is given is never zero.
\<close>

theorem price_mean_above_exp_mean:
  assumes "0 < n" "0 < k" "0 < t"
    and "is_mat n k phi" "is_mat n 1 psi" "is_mat k t tb"
  shows "\<exists>mean_logp std_logp mean_price std_price.
           estimate_logprice_statistics phi psi tb = Inr (mean_logp, std_logp) \<and>
           estimate_price_statistics mean_logp std_logp = Inr (mean_price, std_price) \<and>
           (\<forall>i<n. std_logp ! i ! 0 \<noteq> 0 \<and>
                  (\<forall>j<t. exp (mean_logp ! i ! j) \<le> mean_price ! i ! j))"
proof -
  from estimate_logprice_statistics_entries [OF assms(4,5,6,1,2)]
  obtain mean std where l: "estimate_logprice_statistics phi psi tb = Inr (mean, std)"
    and shapes: "is_mat n t mean" "is_mat n 1 std"
    and std: "\<forall>i<n. std ! i ! 0 = ln (1 + exp (psi ! i ! 0))"
    by blast
  from estimate_price_statistics_entries [OF shapes assms(1,3)]
  obtain mp sp where p: "estimate_price_statistics mean std = Inr (mp, sp)"
    and mp: "\<forall>i<n. \<forall>j<t. mp ! i ! j = exp (mean ! i ! j + (std ! i ! 0) ^ 2 / 2)"
    by blast
  have "std ! i ! 0 \<noteq> 0" if "i < n" for i
    using std that softplus_pos [of "psi ! i ! 0"] by (simp add: softplus_def)
  moreover have "exp (mean ! i ! j) \<le> mp ! i ! j" if "i < n" "j < t" for i j
    using mp that by simp
  ultimately show ?thesis
    using l p by blast
qed

theorem price_mean_above_exp_mean_witness:
  "\<exists>mean_logp std_logp mean_price std_price.
     estimate_logprice_statistics [[1, 2]] [[0]] [[1], [1]] = Inr (mean_logp, std_logp) \<and>
     estimate_price_statistics mean_logp std_logp = Inr (mean_price, std_price) \<and>
     std_logp ! 0 ! 0 \<noteq> 0 \<and> exp (mean_logp ! 0 ! 0) \<le> mean_price ! 0 ! 0"
  using price_mean_above_exp_mean [of 1 2 1 "[[1, 2]]" "[[0]]" "[[1], [1]]"]
  by (simp add: is_mat_def)

section \<open>Properties of the scores\<close>

lemma tt_pred_mat: "is_mat (order + 1) (horizon + 1) (tt_pred T horizon order)"
  by (simp add: tt_pred_def is_mat_def list_all_length del: upt_Suc)

lemma squeeze_column: "is_mat n 1 m \<Longrightarrow> squeeze m = map (\<lambda>r. r ! 0) m"
  by (induction m arbitrary: n) (auto simp: is_mat_def squeeze_def length_Suc_conv)

lemma broadcast1_same:
  assumes "length a = n" "length b = n"
  shows "broadcast1 f a b = Inr (map (\<lambda>i. f (a ! i) (b ! i)) [0..<n])"
proof -
  have "map (\<lambda>i. f (a ! bidx n i) (b ! bidx n i)) [0..<n] = map (\<lambda>i. f (a ! i) (b ! i)) [0..<n]"
    by (intro map_cong refl) (simp add: bidx_id)
  then show ?thesis
    by (simp add: broadcast1_def assms bdim_same)
qed

lemma scores_entries:
  assumes "is_mat n c lp" "horizon < c" "is_mat n t logp" "0 < t" "is_mat n 1 sd" "0 < n"
  shows "scores lp logp sd horizon =
           Inr (map (\<lambda>i. (lp ! i ! horizon - logp ! i ! (t - 1)) / sd ! i ! 0) [0..<n])"
proof -
  have len: "length lp = n" "length logp = n" "length sd = n"
    using assms(1,3,5) by (simp_all add: is_mat_def)
  have col: "column lp horizon = Inr (map (\<lambda>r. r ! horizon) lp)"
    using assms(2) by (simp add: column_def is_mat_cols [OF assms(1,6)])
  have lst: "last_column logp = Inr (map last logp)"
    using assms(4) by (simp add: last_column_def is_mat_cols [OF assms(3,6)])
  have last_nth: "last (logp ! i) = logp ! i ! (t - 1)" if "i < n" for i
  proof -
    have "length (logp ! i) = t"
      by (rule is_mat_row_length [OF assms(3) that])
    moreover from this assms(4) have "logp ! i \<noteq> []"
      by auto
    ultimately show ?thesis
      by (simp add: last_conv_nth)
  qed
  have d: "broadcast1 (-) (map (\<lambda>r. r ! horizon) lp) (map last logp) =
      Inr (map (\<lambda>i. lp ! i ! horizon - logp ! i ! (t - 1)) [0..<n])"
  proof -
    have "length (map (\<lambda>r. r ! horizon) lp) = n" "length (map last logp) = n"
      by (simp_all add: len)
    note eq = broadcast1_same [OF this, of "(-)"]
    show ?thesis
      unfolding eq by (simp add: len last_nth)
  qed
  have q: "broadcast1 (/) (map (\<lambda>i. lp ! i ! horizon - logp ! i ! (t - 1)) [0..<n]) (squeeze sd) =
      Inr (map (\<lambda>i. (lp ! i ! horizon - logp ! i ! (t - 1)) / sd ! i ! 0) [0..<n])"
  proof -
    have "length (map (\<lambda>i. lp ! i ! horizon - logp ! i ! (t - 1)) [0..<n]) = n"
      "length (map (\<lambda>r. r ! 0) sd) = n"
      by (simp_all add: len)
    note eq = broadcast1_same [OF this, of "(/)"]
    show ?thesis
      unfolding squeeze_column [OF assms(5)] eq by (simp add: len)
  qed
  show ?thesis
    by (simp only: scores_def and_then_def col lst d q sum.case)
qed

text \<open>
  Claim C3, as the code has it. For every stock \<open>i\<close> the score is the forecast at the
  horizon minus the last observed log-price, divided by the standard deviation of the
  forecast, which is positive. So a score is positive exactly when the forecast log-price is
  above the last observed one, that is when the predicted price is above the current price
  (the current price is below the trend).
\<close>

theorem score_formula_and_sign:
  assumes "0 < n" "0 < T"
    and "is_mat n (order + 1) phi" "is_mat n 1 psi" "is_mat n T logp"
  shows "\<exists>logp_pred std_logp_pred sc.
           estimate_logprice_statistics phi psi (tt_pred T horizon order) =
             Inr (logp_pred, std_logp_pred) \<and>
           scores logp_pred logp std_logp_pred horizon = Inr sc \<and> length sc = n \<and>
           (\<forall>i<n. sc ! i = (logp_pred ! i ! horizon - logp ! i ! (T - 1)) / std_logp_pred ! i ! 0 \<and>
                  0 < std_logp_pred ! i ! 0 \<and>
                  (0 < sc ! i \<longleftrightarrow> logp ! i ! (T - 1) < logp_pred ! i ! horizon) \<and>
                  (0 < sc ! i \<longleftrightarrow> exp (logp ! i ! (T - 1)) < exp (logp_pred ! i ! horizon)))"
proof -
  have "\<exists>lp sd. estimate_logprice_statistics phi psi (tt_pred T horizon order) = Inr (lp, sd) \<and>
      is_mat n (horizon + 1) lp \<and> is_mat n 1 sd \<and>
      (\<forall>i<n. (\<forall>j<horizon + 1. lp ! i ! j =
                 (\<Sum>l<order + 1. phi ! i ! l * tt_pred T horizon order ! l ! j)) \<and>
             sd ! i ! 0 = ln (1 + exp (psi ! i ! 0)))"
    by (rule estimate_logprice_statistics_entries [OF assms(3,4) tt_pred_mat assms(1)]) simp
  then obtain lp sd
    where l: "estimate_logprice_statistics phi psi (tt_pred T horizon order) = Inr (lp, sd)"
    and shapes: "is_mat n (horizon + 1) lp" "is_mat n 1 sd"
    and std: "\<forall>i<n. sd ! i ! 0 = ln (1 + exp (psi ! i ! 0))"
    by blast
  let ?sc = "map (\<lambda>i. (lp ! i ! horizon - logp ! i ! (T - 1)) / sd ! i ! 0) [0..<n]"
  have s: "scores lp logp sd horizon = Inr ?sc"
    by (rule scores_entries [OF shapes(1) _ assms(5,2) shapes(2) assms(1)]) simp
  have pos: "0 < sd ! i ! 0" if "i < n" for i
    using std that softplus_pos [of "psi ! i ! 0"] by (simp add: softplus_def)
  have "?sc ! i = (lp ! i ! horizon - logp ! i ! (T - 1)) / sd ! i ! 0 \<and> 0 < sd ! i ! 0 \<and>
      (0 < ?sc ! i \<longleftrightarrow> logp ! i ! (T - 1) < lp ! i ! horizon) \<and>
      (0 < ?sc ! i \<longleftrightarrow> exp (logp ! i ! (T - 1)) < exp (lp ! i ! horizon))" if "i < n" for i
    using that pos [OF that] by (simp add: zero_less_divide_iff)
  then show ?thesis
    using l s by (intro exI [of _ lp] exI [of _ sd] exI [of _ ?sc]) simp
qed

theorem score_formula_and_sign_witness:
  "\<exists>logp_pred std_logp_pred sc.
     estimate_logprice_statistics [[1, 0, 0]] [[0]] (tt_pred 1 5 2) = Inr (logp_pred, std_logp_pred) \<and>
     scores logp_pred [[0]] std_logp_pred 5 = Inr sc \<and> length sc = 1 \<and>
     sc ! 0 = (logp_pred ! 0 ! 5 - 0) / std_logp_pred ! 0 ! 0 \<and>
     (0 < sc ! 0 \<longleftrightarrow> 0 < logp_pred ! 0 ! 5)"
  using score_formula_and_sign [of 1 1 2 "[[1, 0, 0]]" "[[0]]" "[[0]]" 5]
  by (simp add: is_mat_def) blast

text \<open>
  One stock with \<open>phi = [1, 0, 0]\<close>, \<open>psi = 0\<close> and the single observed log-price 0: the
  forecast log-price is 1 at every offset, the score \<open>1 / ln 2\<close> is positive, and the
  predicted price \<open>exp 1\<close> is not below the current price \<open>exp 0\<close>.
\<close>

theorem score_sign_counterexample:
  "estimate_logprice_statistics [[1, 0, 0]] [[0]] (tt_pred 1 5 2) =
     Inr ([[1, 1, 1, 1, 1, 1]], [[ln 2]]) \<and>
   scores [[1, 1, 1, 1, 1, 1]] [[0]] [[ln 2]] 5 = Inr [1 / ln 2] \<and>
   0 < 1 / ln (2 :: real) \<and> \<not> exp (1 :: real) < exp 0"
  by (simp add: estimate_logprice_statistics_def and_then_def np_dot_def nrows_def ncols_def
      tt_pred_def elementwise_def softplus_def scores_def column_def last_column_def
      broadcast1_def bdim_def bidx_def squeeze_def upt_rec)

section \<open>Properties of \<^verbatim>\<open>train\<close>\<close>

lemma sector_stage_freezes:
  assumes "sector_stage sample step logp info n s = Inr (l, pm, qm, s')"
  shows "pm = snd s 0 \<and> qm = snd s 1"
  using assms unfolding sector_stage_def and_then_def Let_def
  by (auto split: sum.splits prod.splits)

lemma industry_stage_freezes:
  assumes "industry_stage sample step logp info n pm qm s = Inr (l, ps, qs, s')"
  shows "ps = snd s 2 \<and> qs = snd s 3"
  using assms unfolding industry_stage_def and_then_def Let_def
  by (auto split: sum.splits prod.splits)

lemma stock_stage_freezes:
  assumes "stock_stage sample step logp info n pm qm ps qs s = Inr (l, p_i, q_i, s')"
  shows "p_i = snd s 4 \<and> q_i = snd s 5"
  using assms unfolding stock_stage_def and_then_def Let_def
  by (auto split: sum.splits prod.splits)

text \<open>
  Claim C1. Whatever one iteration of the optimizer does to its own state and to the
  variables of the store, when \<open>train\<close> returns, the returned \<open>phi_m, psi_m\<close> are the
  values that their variables had in the state \<open>s1\<close> at the end of the market stage, and
  these same values are the constants that the sector, industry and stock stages are given
  and hand on; likewise \<open>phi_s, psi_s\<close> are the values at the end of the sector stage
  (\<open>s2\<close>), \<open>phi_i, psi_i\<close> those at the end of the industry stage (\<open>s3\<close>), and
  \<open>phi, psi\<close> those at the end of the stock stage (\<open>s4\<close>).
\<close>

theorem train_frozen_parameters:
  assumes "train sample step opt store logp info num_steps =
             Inr (losses, phi_m, psi_m, phi_s, psi_s, phi_i, psi_i, phi, psi)"
  shows "\<exists>loss_m s1 loss_s s2 loss_i s3 loss s4.
           market_stage sample step logp info (nat (num_steps_l num_steps)) (opt, store) =
             Inr (loss_m, s1) \<and>
           sector_stage sample step logp info (nat (num_steps_l num_steps)) s1 =
             Inr (loss_s, phi_m, psi_m, s2) \<and>
           industry_stage sample step logp info (nat (num_steps_l num_steps)) phi_m psi_m s2 =
             Inr (loss_i, phi_s, psi_s, s3) \<and>
           stock_stage sample step logp info (nat (num_steps_l num_steps))
               phi_m psi_m phi_s psi_s s3 =
             Inr (loss, phi_i, psi_i, s4) \<and>
           phi_m = snd s1 0 \<and> psi_m = snd s1 1 \<and>
           phi_s = snd s2 2 \<and> psi_s = snd s2 3 \<and>
           phi_i = snd s3 4 \<and> psi_i = snd s3 5 \<and>
           phi = snd s4 6 \<and> psi = snd s4 7"
proof -
  let ?n = "nat (num_steps_l num_steps)"
  from assms obtain loss_m s1 where
    m: "market_stage sample step logp info ?n (opt, store) = Inr (loss_m, s1)"
    unfolding train_def and_then_def Let_def by (auto split: sum.splits prod.splits)
  from assms m obtain loss_s pm qm s2 where
    s: "sector_stage sample step logp info ?n s1 = Inr (loss_s, pm, qm, s2)"
    unfolding train_def and_then_def Let_def by (auto split: sum.splits prod.splits)
  from assms m s obtain loss_i ps qs s3 where
    i: "industry_stage sample step logp info ?n pm qm s2 = Inr (loss_i, ps, qs, s3)"
    unfolding train_def and_then_def Let_def by (auto split: sum.splits prod.splits)
  from assms m s i obtain loss p_i q_i s4 where
    k: "stock_stage sample step logp info ?n pm qm ps qs s3 = Inr (loss, p_i, q_i, s4)"
    unfolding train_def and_then_def Let_def by (auto split: sum.splits prod.splits)
  from assms m s i k have r: "phi_m = pm" "psi_m = qm" "phi_s = ps" "psi_s = qs"
      "phi_i = p_i" "psi_i = q_i" "phi = snd s4 6" "psi = snd s4 7"
    unfolding train_def and_then_def Let_def by simp_all
  from sector_stage_freezes [OF s] industry_stage_freezes [OF i] stock_stage_freezes [OF k]
    m s i k r
  show ?thesis by blast
qed

text \<open>
  An optimizer that adds 1 to every variable of the store at each iteration, the frozen
  ones included, with two iterations per stage: every returned parameter is 2.
\<close>

theorem train_frozen_parameters_witness:
  "\<exists>loss_m s1 loss_s s2 loss_i s3 loss s4.
     market_stage (\<lambda>m. replicate (length m) [[0]])
         (\<lambda>f s. (0, fst s, \<lambda>a. elementwise (\<lambda>x. x + 1) (snd s a))) [[0]]
         \<lparr>tt = [[1]], order_scale = [[1]], num_sectors = 1, num_industries = 1,
            sector_industries_id = [0], industries_id = [0], sectors_id = [0]\<rparr>
         (nat (num_steps_l 8)) ((), \<lambda>a. []) = Inr (loss_m, s1) \<and>
     sector_stage (\<lambda>m. replicate (length m) [[0]])
         (\<lambda>f s. (0, fst s, \<lambda>a. elementwise (\<lambda>x. x + 1) (snd s a))) [[0]]
         \<lparr>tt = [[1]], order_scale = [[1]], num_sectors = 1, num_industries = 1,
            sector_industries_id = [0], industries_id = [0], sectors_id = [0]\<rparr>
         (nat (num_steps_l 8)) s1 = Inr (loss_s, [[2]], [[2]], s2) \<and>
     industry_stage (\<lambda>m. replicate (length m) [[0]])
         (\<lambda>f s. (0, fst s, \<lambda>a. elementwise (\<lambda>x. x + 1) (snd s a))) [[0]]
         \<lparr>tt = [[1]], order_scale = [[1]], num_sectors = 1, num_industries = 1,
            sector_industries_id = [0], industries_id = [0], sectors_id = [0]\<rparr>
         (nat (num_steps_l 8)) [[2]] [[2]] s2 = Inr (loss_i, [[2]], [[2]], s3) \<and>
     stock_stage (\<lambda>m. replicate (length m) [[0]])
         (\<lambda>f s. (0, fst s, \<lambda>a. elementwise (\<lambda>x. x + 1) (snd s a))) [[0]]
         \<lparr>tt = [[1]], order_scale = [[1]], num_sectors = 1, num_industries = 1,
            sector_industries_id = [0], industries_id = [0], sectors_id = [0]\<rparr>
         (nat (num_steps_l 8)) [[2]] [[2]] [[2]] [[2]] s3 = Inr (loss, [[2]], [[2]], s4) \<and>
     [[2]] = snd s1 0 \<and> [[2]] = snd s1 1 \<and> [[2]] = snd s2 2 \<and> [[2]] = snd s2 3 \<and>
     [[2]] = snd s3 4 \<and> [[2]] = snd s3 5 \<and> [[2]] = snd s4 6 \<and> [[2]] = snd s4 7"
proof -
  have run: "train (\<lambda>m. replicate (length m) [[0]])
       (\<lambda>f s. (0, fst s, \<lambda>a. elementwise (\<lambda>x. x + 1) (snd s a))) () (\<lambda>a. []) [[0]]
       \<lparr>tt = [[1]], order_scale = [[1]], num_sectors = 1, num_industries = 1,
          sector_industries_id = [0], industries_id = [0], sectors_id = [0]\<rparr> 8 =
     Inr (([0, 0], [0, 0], [0, 0], [0, 0]),
          ([[2]], [[2]], [[2]], [[2]], [[2]], [[2]], [[2]], [[2]]))"
    by (simp add: train_def market_stage_def sector_stage_def industry_stage_def stock_stage_def
        and_then_def define_model_market define_model_sector define_model_industry
        define_model_stock item_def zeros_like_def elementwise_def group_means_def
        rows_where_def mean0_def ncols_def num_steps_l_def numeral_2_eq_2 Let_def)
  show ?thesis
    by (rule train_frozen_parameters [OF run])
qed

end
